theory Spec2Isabelle
  imports Complex_Main
begin

section \<open>Virtual Media Player: gesture classification, zone lines and player selection\<close>

text \<open>
  A shallow embedding of \<^verbatim>\<open>main.py\<close> and \<^verbatim>\<open>interface.py\<close>.
  Exceptions are values of \<open>py_error\<close>; a computation that may raise returns
  \<open>py_error + 'a\<close> with \<open>Inl\<close> for the exception. The calls made on the global
  \<^verbatim>\<open>o_media_player\<close> are recorded, in order, as a list of \<open>command\<close>s.
\<close>

subsection \<open>Exceptions and list indexing\<close>

datatype py_error = IndexError | KeyError | ZeroDivisionError | ValueError string

text \<open>Python's \<^verbatim>\<open>xs[i]\<close>: a negative index counts from the end, an index out of
  range raises \<^verbatim>\<open>IndexError\<close>.\<close>

definition py_index :: "'a list \<Rightarrow> int \<Rightarrow> py_error + 'a" where
  "py_index xs i =
     (if 0 \<le> i \<and> i < int (length xs) then Inr (xs ! nat i)
      else if i < 0 \<and> - int (length xs) \<le> i then Inr (xs ! nat (int (length xs) + i))
      else Inl IndexError)"

text \<open>Sequencing of computations that may raise: the first exception ends the run.\<close>

definition and_then :: "py_error + 'a \<Rightarrow> ('a \<Rightarrow> py_error + 'b) \<Rightarrow> py_error + 'b" where
  "and_then m f = (case m of Inl e \<Rightarrow> Inl e | Inr v \<Rightarrow> f v)"

subsection \<open>\<^verbatim>\<open>interface.py\<close>: the command interface and the factory\<close>

text \<open>The five methods of class \<^verbatim>\<open>Command\<close>.\<close>

datatype command = PlayPause | VolumeDecrease | VolumeIncrease | Forward | Backward

text \<open>The concrete players: \<^verbatim>\<open>Youtube\<close> is the only subclass of \<^verbatim>\<open>Command\<close>.\<close>

datatype player = Youtube

text \<open>The keys a method hands to \<^verbatim>\<open>pyautogui.press\<close>. The \<^verbatim>\<open>time.sleep(0.7)\<close>
  after each press is real time and is not part of the model.\<close>

fun press :: "player \<Rightarrow> command \<Rightarrow> string list" where
  "press Youtube PlayPause = [''Space'']"
| "press Youtube VolumeDecrease = [''Down'']"
| "press Youtube VolumeIncrease = [''Up'']"
| "press Youtube Forward = [''Right'']"
| "press Youtube Backward = [''Left'']"

definition create_media_player :: "string \<Rightarrow> py_error + player" where
  "create_media_player media_ply_name =
     (let name = media_ply_name in
      if name = ''youtube'' then Inr Youtube
      else Inl (ValueError ''The application does not work on this media player!''))"

text \<open>\<^verbatim>\<open>str.lower\<close> on the characters of a name. The model covers ASCII names:
  the letters \<open>A\<close> to \<open>Z\<close> move to \<open>a\<close> to \<open>z\<close>, every other character stays.\<close>

definition lower_char :: "char \<Rightarrow> char" where
  "lower_char c =
     (let n = (of_char c :: nat) in
      if 65 \<le> n \<and> n \<le> 90 then char_of (n + 32) else c)"

definition lower :: "string \<Rightarrow> string" where
  "lower s = map lower_char s"

text \<open>The module-level selection in \<^verbatim>\<open>main.py\<close>:
  \<^verbatim>\<open>o_media_player = media_player_fac.create_media_player(o_media_player_name.lower())\<close>.\<close>

definition o_media_player :: "string \<Rightarrow> py_error + player" where
  "o_media_player o_media_player_name = create_media_player (lower o_media_player_name)"

subsection \<open>\<^verbatim>\<open>Screen.line_pos\<close>\<close>

text \<open>
  \<^verbatim>\<open>screen_size\<close> is the pair of integers that \<^verbatim>\<open>GetSystemMetrics\<close> returns.
  Python's \<^verbatim>\<open>/\<close> is true division; the model computes in the rationals. Every
  intermediate value of the function is an integer multiple of \<open>1/128\<close> (lemmas
  \<open>first_line_dyadic\<close> and \<open>second_line_dyadic\<close> below), which binary floating point
  holds without rounding for every screen width a 32-bit integer can express, so the
  floating-point run computes the same numbers. Dividing by a zero width raises
  \<^verbatim>\<open>ZeroDivisionError\<close>.
\<close>

definition true_div :: "rat \<Rightarrow> rat \<Rightarrow> py_error + rat" where
  "true_div a b = (if b = 0 then Inl ZeroDivisionError else Inr (a / b))"

definition screen_first_line_x :: "int \<times> int \<Rightarrow> rat" where
  "screen_first_line_x screen_size = (of_int (fst screen_size) * 555) / 1920"

definition screen_second_line_x :: "int \<times> int \<Rightarrow> rat" where
  "screen_second_line_x screen_size = (of_int (fst screen_size) * 1365) / 1920"

definition line_pos :: "int \<times> int \<Rightarrow> py_error + (rat \<times> rat)" where
  "line_pos screen_size =
     and_then (true_div (screen_first_line_x screen_size * 640) (of_int (fst screen_size)))
       (\<lambda>pos_line1.
     and_then (true_div (screen_second_line_x screen_size * 640) (of_int (fst screen_size)))
       (\<lambda>pos_line2. Inr (pos_line1, pos_line2)))"

subsection \<open>\<^verbatim>\<open>HandDetection\<close>\<close>

text \<open>
  \<^verbatim>\<open>multi_handedness\<close> is \<^verbatim>\<open>None\<close> or a list with one entry per detected hand;
  an entry is modelled by the labels of its \<^verbatim>\<open>classification\<close> list. The loop of
  \<^verbatim>\<open>hand_type\<close> overwrites \<^verbatim>\<open>left_or_right\<close> at every entry. An entry with no
  classification has no key \<^verbatim>\<open>'classification'\<close> in its dictionary.
\<close>

fun hand_type_loop :: "string list list \<Rightarrow> string option \<Rightarrow> py_error + string option" where
  "hand_type_loop [] left_or_right = Inr left_or_right"
| "hand_type_loop (hand_handedness # rest) left_or_right =
     (case hand_handedness of
        [] \<Rightarrow> Inl KeyError
      | label # _ \<Rightarrow> hand_type_loop rest (Some label))"

definition hand_type :: "string list list option \<Rightarrow> py_error + string option" where
  "hand_type multi_handedness =
     (case multi_handedness of
        None \<Rightarrow> Inr None
      | Some hs \<Rightarrow> if hs \<noteq> [] then hand_type_loop hs None else Inr None)"

text \<open>A landmark is the list \<^verbatim>\<open>[index, coordinate_x, coordinate_y]\<close> that
  \<^verbatim>\<open>finger_position\<close> appends: position 1 is x, position 2 is y.\<close>

type_synonym landmark = "int \<times> int \<times> int"

definition coordinate_x :: "landmark \<Rightarrow> int" where
  "coordinate_x p = fst (snd p)"

definition coordinate_y :: "landmark \<Rightarrow> int" where
  "coordinate_y p = snd (snd p)"

text \<open>\<^verbatim>\<open>finger_position\<close>, from the pixel coordinates of the landmarks of each hand
  (the scaling of the normalised coordinates by the image size is floating point and
  happens before this model). Only the first hand is read.\<close>

definition finger_position :: "(int \<times> int) list list option \<Rightarrow> py_error + landmark list" where
  "finger_position multi_hand_landmarks =
     (case multi_hand_landmarks of
        None \<Rightarrow> Inr []
      | Some hands \<Rightarrow>
          and_then (py_index hands 0)
            (\<lambda>my_hand. Inr (map (\<lambda>(index, xy). (int index, fst xy, snd xy))
                               (enumerate 0 my_hand))))"

subsection \<open>\<^verbatim>\<open>HandGesture\<close>\<close>

text \<open>\<^verbatim>\<open>o_pos_lst[i][1]\<close> and \<^verbatim>\<open>o_pos_lst[i][2]\<close>.\<close>

definition pos_x :: "landmark list \<Rightarrow> int \<Rightarrow> py_error + int" where
  "pos_x o_pos_lst i = and_then (py_index o_pos_lst i) (\<lambda>p. Inr (coordinate_x p))"

definition pos_y :: "landmark list \<Rightarrow> int \<Rightarrow> py_error + int" where
  "pos_y o_pos_lst i = and_then (py_index o_pos_lst i) (\<lambda>p. Inr (coordinate_y p))"

text \<open>Each method returns the calls it makes on \<^verbatim>\<open>o_media_player\<close>. Every list
  read of a method comes before its first call, and a read that succeeded once succeeds
  again, so a run that raises has made no call.\<close>

definition total_fingers_0 ::
  "landmark list \<Rightarrow> rat \<times> rat \<Rightarrow> string option \<Rightarrow> py_error + command list" where
  "total_fingers_0 o_pos_lst lines_pos label =
     and_then (pos_x o_pos_lst 9) (\<lambda>palm.
       if of_int palm > fst lines_pos \<and> of_int palm < snd lines_pos
       then Inr [PlayPause] else Inr [])"

definition total_fingers_1 ::
  "landmark list \<Rightarrow> rat \<times> rat \<Rightarrow> string option \<Rightarrow> py_error + command list" where
  "total_fingers_1 o_pos_lst lines_pos label =
     and_then (pos_y o_pos_lst 8) (\<lambda>tip_y.
     and_then (pos_y o_pos_lst 6) (\<lambda>joint_y.
       if tip_y < joint_y then
         and_then (pos_x o_pos_lst 8) (\<lambda>tip_x.
           Inr ((if of_int tip_x < fst lines_pos \<and> label = Some ''Left''
                 then [Backward] else []) @
                (if of_int tip_x > snd lines_pos \<and> label = Some ''Right''
                 then [Forward] else [])))
       else Inr []))"

definition total_fingers_2 ::
  "landmark list \<Rightarrow> rat \<times> rat \<Rightarrow> string option \<Rightarrow> py_error + command list" where
  "total_fingers_2 o_pos_lst lines_pos label =
     and_then (pos_y o_pos_lst 12) (\<lambda>middle_tip_y.
     and_then (pos_y o_pos_lst 10) (\<lambda>middle_joint_y.
       if middle_tip_y < middle_joint_y then
         and_then (pos_y o_pos_lst 8) (\<lambda>tip_y.
         and_then (pos_y o_pos_lst 6) (\<lambda>joint_y.
           if tip_y < joint_y then
             and_then (pos_x o_pos_lst 9) (\<lambda>palm.
               Inr ((if of_int palm < fst lines_pos \<and> label = Some ''Left''
                     then [VolumeDecrease] else []) @
                    (if of_int palm > snd lines_pos \<and> label = Some ''Right''
                     then [VolumeIncrease] else [])))
           else Inr []))
       else Inr []))"

subsection \<open>The frame body of \<^verbatim>\<open>main\<close>\<close>

definition finger_tips :: "int list" where
  "finger_tips = [4, 8, 12, 16, 20]"

text \<open>The loop \<^verbatim>\<open>for i in range(1, 5)\<close> that fills \<^verbatim>\<open>fingers\<close>: a tip above its
  joint appends 1, a tip below it appends 0, equal heights append nothing.\<close>

fun fingers_loop :: "landmark list \<Rightarrow> int list \<Rightarrow> nat list \<Rightarrow> py_error + nat list" where
  "fingers_loop o_position_list [] fingers = Inr fingers"
| "fingers_loop o_position_list (i # rest) fingers =
     and_then (py_index finger_tips i) (\<lambda>tip.
     and_then (pos_y o_position_list tip) (\<lambda>tip_y.
     and_then (pos_y o_position_list (tip - 2)) (\<lambda>joint_y.
       let fingers1 = (if tip_y < joint_y then fingers @ [1] else fingers);
           fingers2 = (if tip_y > joint_y then fingers1 @ [0] else fingers1)
       in fingers_loop o_position_list rest fingers2)))"

definition total_fingers :: "landmark list \<Rightarrow> py_error + nat" where
  "total_fingers o_position_list =
     and_then (fingers_loop o_position_list [1, 2, 3, 4] [])
       (\<lambda>fingers. Inr (count_list fingers 1))"

text \<open>One pass of the \<^verbatim>\<open>while\<close> body after the detection: the calls made on the
  player for one frame.\<close>

definition process_frame ::
  "landmark list \<Rightarrow> rat \<times> rat \<Rightarrow> string option \<Rightarrow> py_error + command list" where
  "process_frame o_position_list lines_pos_x label =
     (if length o_position_list \<noteq> 0 then
        and_then (total_fingers o_position_list) (\<lambda>n.
        and_then (if n = 0 then total_fingers_0 o_position_list lines_pos_x label else Inr [])
          (\<lambda>c0.
        and_then (if n = 1 then total_fingers_1 o_position_list lines_pos_x label else Inr [])
          (\<lambda>c1.
        and_then (if n = 2 then total_fingers_2 o_position_list lines_pos_x label else Inr [])
          (\<lambda>c2. Inr (c0 @ c1 @ c2)))))
      else Inr [])"

subsection \<open>Auxiliary notions for the statements\<close>

text \<open>The comparison of the counting loop for the finger whose tip is landmark \<open>tip\<close>:
  the tip lies above the landmark two places before it.\<close>

definition extended :: "landmark list \<Rightarrow> nat \<Rightarrow> bool" where
  "extended o_position_list tip =
     (coordinate_y (o_position_list ! tip) < coordinate_y (o_position_list ! (tip - 2)))"

text \<open>What one round of the counting loop appends to \<^verbatim>\<open>fingers\<close>.\<close>

definition mark :: "landmark list \<Rightarrow> nat \<Rightarrow> nat list" where
  "mark o_position_list tip =
     (if extended o_position_list tip then [1]
      else if coordinate_y (o_position_list ! tip) > coordinate_y (o_position_list ! (tip - 2))
      then [0] else [])"

text \<open>The spellings of a name in any letter case, written from the words of the
  specification and independent of \<open>lower\<close>: each ASCII letter is kept or replaced by
  the same letter in the other case.\<close>

definition swap_case :: "char \<Rightarrow> char" where
  "swap_case c =
     (let n = (of_char c :: nat) in
      if 65 \<le> n \<and> n \<le> 90 then char_of (n + 32)
      else if 97 \<le> n \<and> n \<le> 122 then char_of (n - 32)
      else c)"

fun case_variants :: "string \<Rightarrow> string list" where
  "case_variants [] = [[]]"
| "case_variants (c # cs) =
     concat (map (\<lambda>r. [c # r, swap_case c # r]) (case_variants cs))"

text \<open>Sample frames: all 21 landmarks at one x-coordinate, with the given heights
  (image y grows downwards). Landmarks 5 to 8 are the index finger from base knuckle to
  tip, 9 to 12 the middle finger, 13 to 16 the ring finger, 17 to 20 the little finger.\<close>

definition frame_at :: "int \<Rightarrow> int list \<Rightarrow> landmark list" where
  "frame_at x ys = map (\<lambda>(index, y). (int index, x, y)) (enumerate 0 ys)"

definition fist_ys :: "int list" where
  "fist_ys = [400, 380, 360, 340, 330, 300, 250, 260, 280, 300, 250, 260, 280,
              300, 250, 260, 280, 300, 250, 260, 280]"

definition index_ys :: "int list" where
  "index_ys = [400, 380, 360, 340, 330, 300, 250, 220, 200, 300, 250, 260, 280,
               300, 250, 260, 280, 300, 250, 260, 280]"

definition index_low_ys :: "int list" where
  "index_low_ys = [400, 380, 360, 340, 330, 240, 250, 248, 245, 300, 250, 260, 280,
                   300, 250, 260, 280, 300, 250, 260, 280]"

definition middle_only_ys :: "int list" where
  "middle_only_ys = [400, 380, 360, 340, 330, 300, 250, 260, 280, 300, 250, 220, 200,
                     300, 250, 260, 280, 300, 250, 260, 280]"

definition two_ys :: "int list" where
  "two_ys = [400, 380, 360, 340, 330, 300, 250, 220, 200, 300, 250, 220, 200,
             300, 250, 260, 280, 300, 250, 260, 280]"

definition three_ys :: "int list" where
  "three_ys = [400, 380, 360, 340, 330, 300, 250, 220, 200, 300, 250, 220, 200,
               300, 250, 220, 200, 300, 250, 260, 280]"

definition four_ys :: "int list" where
  "four_ys = [400, 380, 360, 340, 330, 300, 250, 220, 200, 300, 250, 220, 200,
              300, 250, 220, 200, 300, 250, 220, 200]"

section \<open>Zone lines\<close>

lemma first_line_dyadic: "screen_first_line_x (w, h) = of_int (w * 37) / 128"
  by (simp add: screen_first_line_x_def)

lemma second_line_dyadic: "screen_second_line_x (w, h) = of_int (w * 91) / 128"
  by (simp add: screen_second_line_x_def)

lemma line_pos_nonzero: "w \<noteq> 0 \<Longrightarrow> line_pos (w, h) = Inr (185, 455)"
  by (simp add: line_pos_def and_then_def true_div_def screen_first_line_x_def
      screen_second_line_x_def)

lemma line_pos_zero: "line_pos (0, h) = Inl ZeroDivisionError"
  by (simp add: line_pos_def and_then_def true_div_def)

text \<open>
  Claim C7. \<open>line_pos\<close> puts the first line at 555/1920 of the screen width and the
  second at 1365/1920, and rescales both by 640/width; at width 1920 the lines are at
  pixels 555 and 1365 and the rescaled pair is exactly (185, 455).
\<close>

theorem line_pos_fractions:
  "screen_first_line_x (w, h) = of_int w * (555 / 1920) \<and>
   screen_second_line_x (w, h) = of_int w * (1365 / 1920) \<and>
   (w \<noteq> 0 \<longrightarrow>
      line_pos (w, h) = Inr (screen_first_line_x (w, h) * (640 / of_int w),
                             screen_second_line_x (w, h) * (640 / of_int w))) \<and>
   screen_first_line_x (1920, h) = 555 \<and>
   screen_second_line_x (1920, h) = 1365 \<and>
   line_pos (1920, h) = Inr (185, 455)"
  by (simp add: line_pos_def and_then_def true_div_def screen_first_line_x_def
      screen_second_line_x_def)

theorem line_pos_fractions_witness:
  "(1920::int) \<noteq> 0 \<and>
   screen_first_line_x (1920, 1080) = 555 \<and>
   screen_second_line_x (1920, 1080) = 1365 \<and>
   line_pos (1920, 1080) = Inr (555 * (640 / 1920), 1365 * (640 / 1920)) \<and>
   line_pos (1920, 1080) = Inr (185, 455)"
  using line_pos_fractions [of 1920 1080] by simp

text \<open>
  Claim C10. For every positive width and height \<open>line_pos\<close> returns exactly
  (185, 455): the result does not depend on the resolution.
\<close>

theorem line_pos_resolution_independent:
  "0 < w \<Longrightarrow> 0 < h \<Longrightarrow> line_pos (w, h) = Inr (185, 455)"
  by (simp add: line_pos_nonzero)

theorem line_pos_resolution_independent_witness:
  "(0::int) < 1366 \<and> (0::int) < 768 \<and> line_pos (1366, 768) = Inr (185, 455)"
  using line_pos_resolution_independent [of 1366 768] by simp

section \<open>The finger count\<close>

declare fingers_loop.simps(2) [simp del]

lemma pos_y_in_range: "n < length xs \<Longrightarrow> pos_y xs (int n) = Inr (coordinate_y (xs ! n))"
  by (simp add: pos_y_def py_index_def and_then_def)

lemma pos_x_in_range: "n < length xs \<Longrightarrow> pos_x xs (int n) = Inr (coordinate_x (xs ! n))"
  by (simp add: pos_x_def py_index_def and_then_def)

lemma pos_y_out_of_range: "length xs \<le> n \<Longrightarrow> pos_y xs (int n) = Inl IndexError"
  by (simp add: pos_y_def py_index_def and_then_def)

lemma pos_x_out_of_range: "length xs \<le> n \<Longrightarrow> pos_x xs (int n) = Inl IndexError"
  by (simp add: pos_x_def py_index_def and_then_def)

lemma finger_tips_at:
  "py_index finger_tips 1 = Inr 8" "py_index finger_tips 2 = Inr 12"
  "py_index finger_tips 3 = Inr 16" "py_index finger_tips 4 = Inr 20"
  by (simp_all add: py_index_def finger_tips_def)

lemma fingers_loop_step:
  "py_index finger_tips i = Inr (int t) \<Longrightarrow> t < length xs \<Longrightarrow> 2 \<le> t \<Longrightarrow>
   fingers_loop xs (i # rest) fingers = fingers_loop xs rest (fingers @ mark xs t)"
  using pos_y_in_range[of t xs] pos_y_in_range[of "t - 2" xs]
  by (simp add: fingers_loop.simps(2) and_then_def extended_def mark_def Let_def)

lemma fingers_loop_raise:
  "py_index finger_tips i = Inr (int t) \<Longrightarrow> length xs \<le> t \<Longrightarrow>
   fingers_loop xs (i # rest) fingers = Inl IndexError"
  using pos_y_out_of_range[of xs t]
  by (simp add: fingers_loop.simps(2) and_then_def)

lemma fingers_loop_all:
  assumes "21 \<le> length xs"
  shows "fingers_loop xs [1, 2, 3, 4] [] = Inr (mark xs 8 @ mark xs 12 @ mark xs 16 @ mark xs 20)"
proof -
  have "fingers_loop xs [1, 2, 3, 4] [] = fingers_loop xs [2, 3, 4] ([] @ mark xs 8)"
    using fingers_loop_step[of 1 8 xs] assms finger_tips_at by simp
  also have "\<dots> = fingers_loop xs [3, 4] (([] @ mark xs 8) @ mark xs 12)"
    using fingers_loop_step[of 2 12 xs] assms finger_tips_at by simp
  also have "\<dots> = fingers_loop xs [4] ((([] @ mark xs 8) @ mark xs 12) @ mark xs 16)"
    using fingers_loop_step[of 3 16 xs] assms finger_tips_at by simp
  also have "\<dots> = fingers_loop xs [] (((([] @ mark xs 8) @ mark xs 12) @ mark xs 16) @ mark xs 20)"
    using fingers_loop_step[of 4 20 xs] assms finger_tips_at by simp
  finally show ?thesis by simp
qed

lemma count_mark: "count_list (mark xs t) (Suc 0) = (if extended xs t then 1 else 0)"
  by (simp add: mark_def)

lemma total_fingers_count:
  assumes "21 \<le> length xs"
  shows "total_fingers xs = Inr (length (filter (extended xs) [8, 12, 16, 20]))"
  by (simp add: total_fingers_def fingers_loop_all[OF assms] and_then_def count_mark)

lemma total_fingers_short:
  assumes "length xs < 21"
  shows "total_fingers xs = Inl IndexError"
proof -
  consider "length xs \<le> 8" | "8 < length xs" "length xs \<le> 12"
    | "12 < length xs" "length xs \<le> 16" | "16 < length xs" "length xs \<le> 20"
    using assms by linarith
  then have "fingers_loop xs [1, 2, 3, 4] [] = Inl IndexError"
  proof cases
    case 1
    then show ?thesis
      using fingers_loop_raise[of 1 8 xs] finger_tips_at by simp
  next
    case 2
    then show ?thesis
      using fingers_loop_step[of 1 8 xs] fingers_loop_raise[of 2 12 xs] finger_tips_at by simp
  next
    case 3
    then show ?thesis
      using fingers_loop_step[of 1 8 xs] fingers_loop_step[of 2 12 xs]
        fingers_loop_raise[of 3 16 xs] finger_tips_at by simp
  next
    case 4
    then show ?thesis
      using fingers_loop_step[of 1 8 xs] fingers_loop_step[of 2 12 xs]
        fingers_loop_step[of 3 16 xs] fingers_loop_raise[of 4 20 xs] finger_tips_at by simp
  qed
  then show ?thesis by (simp add: total_fingers_def and_then_def)
qed

lemma total_fingers_Inr_length: "total_fingers xs = Inr n \<Longrightarrow> 21 \<le> length xs"
  using total_fingers_short[of xs] by (cases "length xs < 21") simp_all

lemma total_fingers_le_4: "total_fingers xs = Inr n \<Longrightarrow> n \<le> 4"
  using total_fingers_count[of xs] total_fingers_Inr_length[of xs n] by auto

subsection \<open>The three methods and the dispatch on the count\<close>

lemma total_fingers_0_full:
  "9 < length xs \<Longrightarrow>
   total_fingers_0 xs lp label =
     Inr (if fst lp < of_int (coordinate_x (xs ! 9)) \<and> of_int (coordinate_x (xs ! 9)) < snd lp
          then [PlayPause] else [])"
  using pos_x_in_range[of 9 xs] by (simp add: total_fingers_0_def and_then_def)

lemma total_fingers_1_full:
  "8 < length xs \<Longrightarrow>
   total_fingers_1 xs lp label =
     Inr (if coordinate_y (xs ! 8) < coordinate_y (xs ! 6) then
            (if of_int (coordinate_x (xs ! 8)) < fst lp \<and> label = Some ''Left''
             then [Backward]
             else if snd lp < of_int (coordinate_x (xs ! 8)) \<and> label = Some ''Right''
             then [Forward] else [])
          else [])"
  using pos_x_in_range[of 8 xs] pos_y_in_range[of 8 xs] pos_y_in_range[of 6 xs]
  by (simp add: total_fingers_1_def and_then_def)

lemma total_fingers_2_full:
  "12 < length xs \<Longrightarrow>
   total_fingers_2 xs lp label =
     Inr (if coordinate_y (xs ! 12) < coordinate_y (xs ! 10) \<and>
             coordinate_y (xs ! 8) < coordinate_y (xs ! 6) then
            (if of_int (coordinate_x (xs ! 9)) < fst lp \<and> label = Some ''Left''
             then [VolumeDecrease]
             else if snd lp < of_int (coordinate_x (xs ! 9)) \<and> label = Some ''Right''
             then [VolumeIncrease] else [])
          else [])"
  using pos_x_in_range[of 9 xs] pos_y_in_range[of 8 xs] pos_y_in_range[of 6 xs]
    pos_y_in_range[of 12 xs] pos_y_in_range[of 10 xs]
  by (simp add: total_fingers_2_def and_then_def)

lemma process_frame_dispatch:
  assumes "total_fingers xs = Inr n"
  shows "process_frame xs lp label =
     (if n = 0 then total_fingers_0 xs lp label
      else if n = 1 then total_fingers_1 xs lp label
      else if n = 2 then total_fingers_2 xs lp label
      else Inr [])"
proof -
  have len: "21 \<le> length xs"
    using assms by (rule total_fingers_Inr_length)
  then have ne: "xs \<noteq> []" by auto
  show ?thesis
    using len
    by (simp add: process_frame_def assms ne and_then_def total_fingers_0_full
        total_fingers_1_full total_fingers_2_full)
qed

lemma total_fingers_0_short: "length xs \<le> 9 \<Longrightarrow> total_fingers_0 xs lp label = Inl IndexError"
  using pos_x_out_of_range[of xs 9] by (simp add: total_fingers_0_def and_then_def)

lemma total_fingers_1_short: "length xs \<le> 8 \<Longrightarrow> total_fingers_1 xs lp label = Inl IndexError"
  using pos_y_out_of_range[of xs 8] by (simp add: total_fingers_1_def and_then_def)

lemma total_fingers_2_short: "length xs \<le> 12 \<Longrightarrow> total_fingers_2 xs lp label = Inl IndexError"
  using pos_y_out_of_range[of xs 12] by (simp add: total_fingers_2_def and_then_def)

lemma process_frame_short:
  "length xs < 21 \<Longrightarrow> process_frame xs lp label = (if xs = [] then Inr [] else Inl IndexError)"
  using total_fingers_short[of xs] by (simp add: process_frame_def and_then_def)

lemma fingers_loop_index:
  assumes "21 \<le> length xs"
  shows "fingers_loop xs [1] [] = Inr (mark xs 8)"
  using fingers_loop_step[of 1 8 xs "[]" "[]"] assms finger_tips_at by simp

subsection \<open>The loop of \<^verbatim>\<open>hand_type\<close>\<close>

lemma hand_type_loop_None:
  "hand_type_loop hs acc = Inr None \<longleftrightarrow> hs = [] \<and> acc = None"
  by (induction hs arbitrary: acc) (auto split: list.splits)

lemma hand_type_loop_last:
  "hs \<noteq> [] \<Longrightarrow> \<forall>e \<in> set hs. e \<noteq> [] \<Longrightarrow> hand_type_loop hs acc = Inr (Some (hd (last hs)))"
proof (induction hs arbitrary: acc)
  case Nil
  then show ?case by simp
next
  case (Cons h hs)
  then obtain l ls where h: "h = l # ls" by (cases h) auto
  show ?case
  proof (cases "hs = []")
    case True
    then show ?thesis by (simp add: h)
  next
    case False
    then show ?thesis using Cons h by simp
  qed
qed

section \<open>Gesture classification\<close>

text \<open>
  Claim C1. Whatever the landmark list, the two lines and the label are, a frame makes
  at most one call on the player: the run raises \<^verbatim>\<open>IndexError\<close> (a non-empty
  list with fewer than 21 landmarks), makes no call, or makes exactly one of the five
  calls. The count selects one method only, and each method makes at most one call.
\<close>

theorem at_most_one_command:
  "process_frame xs lp label \<in>
     {Inl IndexError, Inr [], Inr [PlayPause], Inr [VolumeIncrease], Inr [VolumeDecrease],
      Inr [Forward], Inr [Backward]} \<and>
   (total_fingers xs = Inr n \<longrightarrow>
      process_frame xs lp label =
        (if n = 0 then total_fingers_0 xs lp label
         else if n = 1 then total_fingers_1 xs lp label
         else if n = 2 then total_fingers_2 xs lp label
         else Inr [])) \<and>
   total_fingers_0 xs lp label \<in> {Inl IndexError, Inr [], Inr [PlayPause]} \<and>
   total_fingers_1 xs lp label \<in> {Inl IndexError, Inr [], Inr [Backward], Inr [Forward]} \<and>
   total_fingers_2 xs lp label \<in>
     {Inl IndexError, Inr [], Inr [VolumeDecrease], Inr [VolumeIncrease]}"
proof -
  have m0: "total_fingers_0 xs lp label \<in> {Inl IndexError, Inr [], Inr [PlayPause]}"
    using total_fingers_0_full[of xs lp label] total_fingers_0_short[of xs lp label]
    by (cases "9 < length xs") simp_all
  have m1: "total_fingers_1 xs lp label \<in> {Inl IndexError, Inr [], Inr [Backward], Inr [Forward]}"
    using total_fingers_1_full[of xs lp label] total_fingers_1_short[of xs lp label]
    by (cases "8 < length xs") simp_all
  have m2: "total_fingers_2 xs lp label \<in>
     {Inl IndexError, Inr [], Inr [VolumeDecrease], Inr [VolumeIncrease]}"
    using total_fingers_2_full[of xs lp label] total_fingers_2_short[of xs lp label]
    by (cases "12 < length xs") simp_all
  have d: "total_fingers xs = Inr n \<longrightarrow>
      process_frame xs lp label =
        (if n = 0 then total_fingers_0 xs lp label
         else if n = 1 then total_fingers_1 xs lp label
         else if n = 2 then total_fingers_2 xs lp label
         else Inr [])"
    using process_frame_dispatch[of xs n lp label] by blast
  have p: "process_frame xs lp label \<in>
     {Inl IndexError, Inr [], Inr [PlayPause], Inr [VolumeIncrease], Inr [VolumeDecrease],
      Inr [Forward], Inr [Backward]}"
  proof (cases "length xs < 21")
    case True
    then show ?thesis by (simp add: process_frame_short)
  next
    case False
    then have "total_fingers xs = Inr (length (filter (extended xs) [8, 12, 16, 20]))"
      by (simp add: total_fingers_count)
    from process_frame_dispatch[OF this, of lp label] m0 m1 m2 show ?thesis
      by (auto split: if_splits)
  qed
  from p d m0 m1 m2 show ?thesis by blast
qed

theorem at_most_one_command_witness:
  "total_fingers (frame_at 100 index_ys) = Inr 1 \<and>
   process_frame (frame_at 100 index_ys) (185, 455) (Some ''Left'') =
     total_fingers_1 (frame_at 100 index_ys) (185, 455) (Some ''Left'') \<and>
   process_frame (frame_at 100 index_ys) (185, 455) (Some ''Left'') = Inr [Backward]"
proof -
  have c: "total_fingers (frame_at 100 index_ys) = Inr 1"
    by code_simp
  have r: "total_fingers_1 (frame_at 100 index_ys) (185, 455) (Some ''Left'') = Inr [Backward]"
    by code_simp
  show ?thesis
    using at_most_one_command [of "frame_at 100 index_ys" "(185, 455)" "Some ''Left''" 1] c r
    by simp
qed

text \<open>
  Claim C2. In a frame with count 0 the call is \<^verbatim>\<open>play_pause\<close> when the x of
  landmark 9 lies strictly between the two lines, for every label, and there is no call
  otherwise.
\<close>

theorem fist_play_pause:
  "total_fingers xs = Inr 0 \<Longrightarrow>
   process_frame xs lp label =
     Inr (if fst lp < of_int (coordinate_x (xs ! 9)) \<and> of_int (coordinate_x (xs ! 9)) < snd lp
          then [PlayPause] else [])"
  using process_frame_dispatch[of xs 0 lp label] total_fingers_Inr_length[of xs 0]
    total_fingers_0_full[of xs lp label] by simp

theorem fist_play_pause_witness:
  "total_fingers (frame_at 320 fist_ys) = Inr 0 \<and>
   process_frame (frame_at 320 fist_ys) (185, 455) None = Inr [PlayPause] \<and>
   process_frame (frame_at 320 fist_ys) (185, 455) (Some ''Right'') = Inr [PlayPause] \<and>
   total_fingers (frame_at 100 fist_ys) = Inr 0 \<and>
   process_frame (frame_at 100 fist_ys) (185, 455) (Some ''Left'') = Inr []"
proof -
  have c: "total_fingers (frame_at 320 fist_ys) = Inr 0"
    and c': "total_fingers (frame_at 100 fist_ys) = Inr 0"
    by code_simp+
  have x: "coordinate_x (frame_at 320 fist_ys ! 9) = 320"
    and x': "coordinate_x (frame_at 100 fist_ys ! 9) = 100"
    by code_simp+
  show ?thesis
    using fist_play_pause [OF c, of "(185, 455)" None]
      fist_play_pause [OF c, of "(185, 455)" "Some ''Right''"]
      fist_play_pause [OF c', of "(185, 455)" "Some ''Left''"] c c' x x'
    by simp
qed

text \<open>
  Claim C3. In a frame with count 1 whose index tip lies above landmark 6: a tip left of
  the first line with label \<^verbatim>\<open>Left\<close> calls \<^verbatim>\<open>backward\<close>, a tip right of the
  second line with label \<^verbatim>\<open>Right\<close> calls \<^verbatim>\<open>forward\<close>, and every other
  combination makes no call.
\<close>

theorem index_seek:
  "total_fingers xs = Inr 1 \<Longrightarrow> coordinate_y (xs ! 8) < coordinate_y (xs ! 6) \<Longrightarrow>
   process_frame xs lp label =
     Inr (if of_int (coordinate_x (xs ! 8)) < fst lp \<and> label = Some ''Left'' then [Backward]
          else if snd lp < of_int (coordinate_x (xs ! 8)) \<and> label = Some ''Right''
          then [Forward] else [])"
  using process_frame_dispatch[of xs 1 lp label] total_fingers_Inr_length[of xs 1]
    total_fingers_1_full[of xs lp label] by simp

theorem index_seek_witness:
  "total_fingers (frame_at 100 index_ys) = Inr 1 \<and>
   coordinate_y (frame_at 100 index_ys ! 8) < coordinate_y (frame_at 100 index_ys ! 6) \<and>
   process_frame (frame_at 100 index_ys) (185, 455) (Some ''Left'') = Inr [Backward] \<and>
   process_frame (frame_at 100 index_ys) (185, 455) (Some ''Right'') = Inr [] \<and>
   total_fingers (frame_at 600 index_ys) = Inr 1 \<and>
   coordinate_y (frame_at 600 index_ys ! 8) < coordinate_y (frame_at 600 index_ys ! 6) \<and>
   process_frame (frame_at 600 index_ys) (185, 455) (Some ''Right'') = Inr [Forward] \<and>
   process_frame (frame_at 600 index_ys) (185, 455) (Some ''Left'') = Inr []"
proof -
  have c: "total_fingers (frame_at 100 index_ys) = Inr 1"
    and c': "total_fingers (frame_at 600 index_ys) = Inr 1"
    by code_simp+
  have y: "coordinate_y (frame_at 100 index_ys ! 8) < coordinate_y (frame_at 100 index_ys ! 6)"
    and y': "coordinate_y (frame_at 600 index_ys ! 8) < coordinate_y (frame_at 600 index_ys ! 6)"
    by code_simp+
  have x: "coordinate_x (frame_at 100 index_ys ! 8) = 100"
    and x': "coordinate_x (frame_at 600 index_ys ! 8) = 600"
    by code_simp+
  show ?thesis
    using index_seek [OF c y, of "(185, 455)" "Some ''Left''"]
      index_seek [OF c y, of "(185, 455)" "Some ''Right''"]
      index_seek [OF c' y', of "(185, 455)" "Some ''Right''"]
      index_seek [OF c' y', of "(185, 455)" "Some ''Left''"] c c' y y' x x'
    by simp
qed

text \<open>
  Claim C4, as stated, asks for the index tip to lie above the base knuckle (landmark 5)
  before a seek call. The frame below has count 1 and calls \<^verbatim>\<open>backward\<close> although
  its index tip (y = 245) is not above its base knuckle (y = 240).
\<close>

theorem seek_gate_base_knuckle_counterexample:
  "total_fingers (frame_at 100 index_low_ys) = Inr 1 \<and>
   process_frame (frame_at 100 index_low_ys) (185, 455) (Some ''Left'') = Inr [Backward] \<and>
   \<not> coordinate_y (frame_at 100 index_low_ys ! 8) < coordinate_y (frame_at 100 index_low_ys ! 5)"
  by code_simp

text \<open>
  Claim C4, amended. In a frame with count 1 a seek call is made only when the index tip
  lies above landmark 6, and there is no call when it does not. This is the comparison
  by which the counting loop counts the index finger (round \<open>i = 1\<close> appends 1), not
  a stricter one. The test does reject frames with count 1: those whose one raised finger
  is not the index finger, as in the last three conjuncts.
\<close>

theorem seek_gate_is_count_comparison:
  "(total_fingers xs = Inr 1 \<longrightarrow>
      (process_frame xs lp label \<in> {Inr [Backward], Inr [Forward]} \<longrightarrow>
         coordinate_y (xs ! 8) < coordinate_y (xs ! 6)) \<and>
      (\<not> coordinate_y (xs ! 8) < coordinate_y (xs ! 6) \<longrightarrow> process_frame xs lp label = Inr []) \<and>
      (coordinate_y (xs ! 8) < coordinate_y (xs ! 6) \<longleftrightarrow> fingers_loop xs [1] [] = Inr [1])) \<and>
   total_fingers (frame_at 100 middle_only_ys) = Inr 1 \<and>
   \<not> coordinate_y (frame_at 100 middle_only_ys ! 8) < coordinate_y (frame_at 100 middle_only_ys ! 6) \<and>
   process_frame (frame_at 100 middle_only_ys) (185, 455) (Some ''Left'') = Inr []"
proof -
  have general: "(process_frame xs lp label \<in> {Inr [Backward], Inr [Forward]} \<longrightarrow>
         coordinate_y (xs ! 8) < coordinate_y (xs ! 6)) \<and>
      (\<not> coordinate_y (xs ! 8) < coordinate_y (xs ! 6) \<longrightarrow> process_frame xs lp label = Inr []) \<and>
      (coordinate_y (xs ! 8) < coordinate_y (xs ! 6) \<longleftrightarrow> fingers_loop xs [1] [] = Inr [1])"
    if c: "total_fingers xs = Inr 1"
  proof -
    have len: "21 \<le> length xs"
      using c by (rule total_fingers_Inr_length)
    have p: "process_frame xs lp label = total_fingers_1 xs lp label"
      using process_frame_dispatch[OF c, of lp label] by simp
    have g: "coordinate_y (xs ! 8) < coordinate_y (xs ! 6) \<longleftrightarrow> fingers_loop xs [1] [] = Inr [1]"
      by (simp add: fingers_loop_index[OF len] mark_def extended_def)
    show ?thesis
      using len g by (simp add: p total_fingers_1_full)
  qed
  have example: "total_fingers (frame_at 100 middle_only_ys) = Inr 1 \<and>
   \<not> coordinate_y (frame_at 100 middle_only_ys ! 8) < coordinate_y (frame_at 100 middle_only_ys ! 6) \<and>
   process_frame (frame_at 100 middle_only_ys) (185, 455) (Some ''Left'') = Inr []"
    by code_simp
  from general example show ?thesis by blast
qed

theorem seek_gate_is_count_comparison_witness:
  "total_fingers (frame_at 100 index_low_ys) = Inr 1 \<and>
   process_frame (frame_at 100 index_low_ys) (185, 455) (Some ''Left'')
     \<in> {Inr [Backward], Inr [Forward]} \<and>
   coordinate_y (frame_at 100 index_low_ys ! 8) < coordinate_y (frame_at 100 index_low_ys ! 6) \<and>
   fingers_loop (frame_at 100 index_low_ys) [1] [] = Inr [1] \<and>
   total_fingers (frame_at 600 middle_only_ys) = Inr 1 \<and>
   \<not> coordinate_y (frame_at 600 middle_only_ys ! 8) < coordinate_y (frame_at 600 middle_only_ys ! 6) \<and>
   process_frame (frame_at 600 middle_only_ys) (185, 455) (Some ''Right'') = Inr []"
proof -
  have c: "total_fingers (frame_at 100 index_low_ys) = Inr 1"
    and c': "total_fingers (frame_at 600 middle_only_ys) = Inr 1"
    by code_simp+
  have f: "process_frame (frame_at 100 index_low_ys) (185, 455) (Some ''Left'')
     \<in> {Inr [Backward], Inr [Forward]}"
    by code_simp
  have g: "\<not> coordinate_y (frame_at 600 middle_only_ys ! 8)
     < coordinate_y (frame_at 600 middle_only_ys ! 6)"
    by code_simp
  show ?thesis
    using seek_gate_is_count_comparison
      [of "frame_at 100 index_low_ys" "(185, 455)" "Some ''Left''"]
      seek_gate_is_count_comparison
      [of "frame_at 600 middle_only_ys" "(185, 455)" "Some ''Right''"] c c' f g
    by blast
qed

text \<open>
  Claim C5. In a frame with count 2 a volume call is made only when the middle tip lies
  above landmark 10 and the index tip above landmark 6; then landmark 9 left of the first
  line with label \<^verbatim>\<open>Left\<close> calls \<^verbatim>\<open>volume_decrease\<close>, landmark 9 right of the
  second line with label \<^verbatim>\<open>Right\<close> calls \<^verbatim>\<open>volume_increase\<close>, and every
  other combination makes no call.
\<close>

theorem two_fingers_volume:
  "total_fingers xs = Inr 2 \<Longrightarrow>
   process_frame xs lp label =
     Inr (if coordinate_y (xs ! 12) < coordinate_y (xs ! 10) \<and>
             coordinate_y (xs ! 8) < coordinate_y (xs ! 6) then
            (if of_int (coordinate_x (xs ! 9)) < fst lp \<and> label = Some ''Left''
             then [VolumeDecrease]
             else if snd lp < of_int (coordinate_x (xs ! 9)) \<and> label = Some ''Right''
             then [VolumeIncrease] else [])
          else [])"
  using process_frame_dispatch[of xs 2 lp label] total_fingers_Inr_length[of xs 2]
    total_fingers_2_full[of xs lp label] by simp

theorem two_fingers_volume_witness:
  "total_fingers (frame_at 600 two_ys) = Inr 2 \<and>
   process_frame (frame_at 600 two_ys) (185, 455) (Some ''Right'') = Inr [VolumeIncrease] \<and>
   process_frame (frame_at 600 two_ys) (185, 455) (Some ''Left'') = Inr [] \<and>
   total_fingers (frame_at 100 two_ys) = Inr 2 \<and>
   process_frame (frame_at 100 two_ys) (185, 455) (Some ''Left'') = Inr [VolumeDecrease] \<and>
   process_frame (frame_at 100 two_ys) (185, 455) (Some ''Right'') = Inr []"
proof -
  have c: "total_fingers (frame_at 600 two_ys) = Inr 2"
    and c': "total_fingers (frame_at 100 two_ys) = Inr 2"
    by code_simp+
  have y: "coordinate_y (frame_at 600 two_ys ! 12) < coordinate_y (frame_at 600 two_ys ! 10)"
    "coordinate_y (frame_at 600 two_ys ! 8) < coordinate_y (frame_at 600 two_ys ! 6)"
    "coordinate_y (frame_at 100 two_ys ! 12) < coordinate_y (frame_at 100 two_ys ! 10)"
    "coordinate_y (frame_at 100 two_ys ! 8) < coordinate_y (frame_at 100 two_ys ! 6)"
    by code_simp+
  have x: "coordinate_x (frame_at 600 two_ys ! 9) = 600"
    and x': "coordinate_x (frame_at 100 two_ys ! 9) = 100"
    by code_simp+
  show ?thesis
    using two_fingers_volume [OF c, of "(185, 455)" "Some ''Right''"]
      two_fingers_volume [OF c, of "(185, 455)" "Some ''Left''"]
      two_fingers_volume [OF c', of "(185, 455)" "Some ''Left''"]
      two_fingers_volume [OF c', of "(185, 455)" "Some ''Right''"] c c' y x x'
    by simp
qed

text \<open>
  Claim C6. A frame with count 3 or 4 makes no call and raises nothing, and so does a
  frame with no hand: \<^verbatim>\<open>finger_position\<close> returns the empty list, and the frame body
  skips it.
\<close>

theorem no_gesture_no_command:
  "(total_fingers xs = Inr 3 \<or> total_fingers xs = Inr 4 \<longrightarrow>
      process_frame xs lp label = Inr []) \<and>
   process_frame [] lp label = Inr [] \<and>
   finger_position None = Inr []"
  using process_frame_dispatch[of xs 3 lp label] process_frame_dispatch[of xs 4 lp label]
  by (auto simp: process_frame_def finger_position_def)

theorem no_gesture_no_command_witness:
  "total_fingers (frame_at 320 three_ys) = Inr 3 \<and>
   process_frame (frame_at 320 three_ys) (185, 455) (Some ''Right'') = Inr [] \<and>
   total_fingers (frame_at 100 four_ys) = Inr 4 \<and>
   process_frame (frame_at 100 four_ys) (185, 455) (Some ''Left'') = Inr []"
proof -
  have c: "total_fingers (frame_at 320 three_ys) = Inr 3"
    and c': "total_fingers (frame_at 100 four_ys) = Inr 4"
    by code_simp+
  show ?thesis
    using no_gesture_no_command [of "frame_at 320 three_ys" "(185, 455)" "Some ''Right''"]
      no_gesture_no_command [of "frame_at 100 four_ys" "(185, 455)" "Some ''Left''"] c c'
    by simp
qed

section \<open>Handedness\<close>

text \<open>
  Claim C9, as stated, has \<^verbatim>\<open>hand_type\<close> report \<^verbatim>\<open>None\<close> when several hands
  are detected. With one hand classified \<^verbatim>\<open>Left\<close> and one \<^verbatim>\<open>Right\<close> the
  function reports the label of the last one.
\<close>

theorem two_hands_label_counterexample:
  "hand_type (Some [[''Left''], [''Right'']]) = Inr (Some ''Right'') \<and>
   hand_type (Some [[''Left''], [''Right'']]) \<noteq> Inr None"
  by (simp add: hand_type_def)

text \<open>
  Claim C9, amended. \<^verbatim>\<open>hand_type\<close> reports \<^verbatim>\<open>None\<close> exactly when there is no
  handedness entry; with several classified hands it reports the label of the last
  entry. In every frame whose label is \<^verbatim>\<open>None\<close> the methods for count 1 and count 2
  make no call, for every landmark list, while the method for count 0 does not read the
  label and calls \<^verbatim>\<open>play_pause\<close> under its usual condition.
\<close>

theorem label_none_frames:
  "(hand_type multi_handedness = Inr None \<longleftrightarrow>
      multi_handedness = None \<or> multi_handedness = Some []) \<and>
   (hs \<noteq> [] \<and> (\<forall>e \<in> set hs. e \<noteq> []) \<longrightarrow>
      hand_type (Some hs) = Inr (Some (hd (last hs)))) \<and>
   (total_fingers xs = Inr 1 \<or> total_fingers xs = Inr 2 \<longrightarrow>
      process_frame xs lp None = Inr []) \<and>
   total_fingers_1 xs lp None \<in> {Inr [], Inl IndexError} \<and>
   total_fingers_2 xs lp None \<in> {Inr [], Inl IndexError} \<and>
   total_fingers_0 xs lp None = total_fingers_0 xs lp label \<and>
   (total_fingers xs = Inr 0 \<longrightarrow>
      process_frame xs lp None =
        Inr (if fst lp < of_int (coordinate_x (xs ! 9)) \<and>
                of_int (coordinate_x (xs ! 9)) < snd lp
             then [PlayPause] else []))"
proof -
  have a: "hand_type multi_handedness = Inr None \<longleftrightarrow>
      multi_handedness = None \<or> multi_handedness = Some []"
    by (cases multi_handedness) (auto simp: hand_type_def hand_type_loop_None)
  have b: "hs \<noteq> [] \<and> (\<forall>e \<in> set hs. e \<noteq> []) \<longrightarrow>
      hand_type (Some hs) = Inr (Some (hd (last hs)))"
    by (simp add: hand_type_def hand_type_loop_last)
  have m1: "total_fingers_1 xs lp None \<in> {Inr [], Inl IndexError}"
    using total_fingers_1_full[of xs lp None] total_fingers_1_short[of xs lp None]
    by (cases "8 < length xs") simp_all
  have m2: "total_fingers_2 xs lp None \<in> {Inr [], Inl IndexError}"
    using total_fingers_2_full[of xs lp None] total_fingers_2_short[of xs lp None]
    by (cases "12 < length xs") simp_all
  have c: "total_fingers xs = Inr 1 \<or> total_fingers xs = Inr 2 \<longrightarrow>
      process_frame xs lp None = Inr []"
  proof
    assume h: "total_fingers xs = Inr 1 \<or> total_fingers xs = Inr 2"
    then have len: "21 \<le> length xs"
      using total_fingers_Inr_length by blast
    from h show "process_frame xs lp None = Inr []"
    proof
      assume "total_fingers xs = Inr 1"
      from process_frame_dispatch[OF this, of lp None] len show ?thesis
        by (simp add: total_fingers_1_full)
    next
      assume "total_fingers xs = Inr 2"
      from process_frame_dispatch[OF this, of lp None] len show ?thesis
        by (simp add: total_fingers_2_full)
    qed
  qed
  have d: "total_fingers_0 xs lp None = total_fingers_0 xs lp label"
    by (simp add: total_fingers_0_def)
  have e: "total_fingers xs = Inr 0 \<longrightarrow>
      process_frame xs lp None =
        Inr (if fst lp < of_int (coordinate_x (xs ! 9)) \<and>
                of_int (coordinate_x (xs ! 9)) < snd lp
             then [PlayPause] else [])"
  proof
    assume h: "total_fingers xs = Inr 0"
    then have len: "21 \<le> length xs"
      by (rule total_fingers_Inr_length)
    from process_frame_dispatch[OF h, of lp None] len show "process_frame xs lp None =
        Inr (if fst lp < of_int (coordinate_x (xs ! 9)) \<and>
                of_int (coordinate_x (xs ! 9)) < snd lp
             then [PlayPause] else [])"
      by (simp add: total_fingers_0_full)
  qed
  from a b c m1 m2 d e show ?thesis by blast
qed

theorem label_none_frames_witness:
  "hand_type None = Inr None \<and>
   hand_type (Some [[''Left''], [''Right'']]) = Inr (Some ''Right'') \<and>
   total_fingers (frame_at 100 index_ys) = Inr 1 \<and>
   process_frame (frame_at 100 index_ys) (185, 455) None = Inr [] \<and>
   total_fingers (frame_at 600 two_ys) = Inr 2 \<and>
   process_frame (frame_at 600 two_ys) (185, 455) None = Inr [] \<and>
   total_fingers (frame_at 320 fist_ys) = Inr 0 \<and>
   process_frame (frame_at 320 fist_ys) (185, 455) None = Inr [PlayPause]"
proof -
  have c: "total_fingers (frame_at 100 index_ys) = Inr 1"
    "total_fingers (frame_at 600 two_ys) = Inr 2"
    "total_fingers (frame_at 320 fist_ys) = Inr 0"
    by code_simp+
  have x: "coordinate_x (frame_at 320 fist_ys ! 9) = 320"
    by code_simp
  have h: "[[''Left''], [''Right'']] \<noteq> [] \<and> (\<forall>e \<in> set [[''Left''], [''Right'']]. e \<noteq> [])"
    by simp
  show ?thesis
    using label_none_frames [of None "[[''Left''], [''Right'']]" "frame_at 100 index_ys" "(185, 455)" None]
      label_none_frames [of None "[]" "frame_at 600 two_ys" "(185, 455)" None]
      label_none_frames [of None "[]" "frame_at 320 fist_ys" "(185, 455)" None]
      c x h
    by simp
qed

section \<open>Player selection\<close>

text \<open>A name lowers to the same string as another exactly when it is one of its
  spellings in some letter case.\<close>

lemma lower_char_swap_case: "lower_char (swap_case c) = lower_char c"
proof -
  define n where "n = (of_char c :: nat)"
  have c: "c = char_of n" and lt: "n < 256"
    by (simp_all add: n_def)
  consider "65 \<le> n" "n \<le> 90" | "97 \<le> n" "n \<le> 122" | "\<not> (65 \<le> n \<and> n \<le> 90)" "\<not> (97 \<le> n \<and> n \<le> 122)"
    by linarith
  then show ?thesis
  proof cases
    case 1
    then show ?thesis
      by (simp add: c lower_char_def swap_case_def Let_def)
  next
    case 2
    then have "65 \<le> n - 32" "n - 32 \<le> 90" "n - 32 + 32 = n" "\<not> n \<le> 90"
      by simp_all
    with 2 show ?thesis
      by (simp add: c lower_char_def swap_case_def Let_def)
  next
    case 3
    then have h: "\<not> (65 \<le> n \<and> n \<le> 90)" "\<not> (97 \<le> n \<and> n \<le> 122)"
      by blast+
    have "swap_case c = c"
      using lt by (simp add: c swap_case_def Let_def if_not_P[OF h(1)] if_not_P[OF h(2)])
    then show ?thesis by simp
  qed
qed

lemma lower_char_eq:
  assumes "lower_char d = lower_char c"
  shows "d = c \<or> d = swap_case c"
proof -
  define n where "n = (of_char c :: nat)"
  define m where "m = (of_char d :: nat)"
  have c: "c = char_of n" and ltn: "n < 256" and d: "d = char_of m" and ltm: "m < 256"
    by (simp_all add: n_def m_def)
  have lc: "lower_char c = char_of (if 65 \<le> n \<and> n \<le> 90 then n + 32 else n)"
    by (simp add: c ltn lower_char_def Let_def)
  have ld: "lower_char d = char_of (if 65 \<le> m \<and> m \<le> 90 then m + 32 else m)"
    by (simp add: d ltm lower_char_def Let_def)
  have sc: "swap_case c = char_of (if 65 \<le> n \<and> n \<le> 90 then n + 32
      else if 97 \<le> n \<and> n \<le> 122 then n - 32 else n)"
    by (simp add: c ltn swap_case_def Let_def)
  from assms have "(if 65 \<le> m \<and> m \<le> 90 then m + 32 else m) mod 256 =
      (if 65 \<le> n \<and> n \<le> 90 then n + 32 else n) mod 256"
    unfolding lc ld by (simp only: char_of_quasi_inj)
  then have e: "(if 65 \<le> m \<and> m \<le> 90 then m + 32 else m) =
      (if 65 \<le> n \<and> n \<le> 90 then n + 32 else n)"
    using ltn ltm by (simp split: if_splits)
  then have "m = n \<or> m = (if 65 \<le> n \<and> n \<le> 90 then n + 32
      else if 97 \<le> n \<and> n \<le> 122 then n - 32 else n)"
    by (simp split: if_splits)
  then show ?thesis
    unfolding sc by (auto simp: c d)
qed

lemma lower_char_eq_iff: "lower_char d = lower_char c \<longleftrightarrow> d = c \<or> d = swap_case c"
  using lower_char_eq[of d c] lower_char_swap_case[of c] by auto

lemma case_variants_Cons:
  "set (case_variants (c # cs)) =
     {d # r | d r. (d = c \<or> d = swap_case c) \<and> r \<in> set (case_variants cs)}"
  by auto

lemma case_variants_iff: "s \<in> set (case_variants t) \<longleftrightarrow> lower s = lower t"
proof (induction t arbitrary: s)
  case Nil
  then show ?case by (simp add: lower_def)
next
  case (Cons c cs)
  show ?case
  proof (cases s)
    case Nil
    then show ?thesis by (simp add: lower_def case_variants_Cons del: case_variants.simps)
  next
    case (Cons d r)
    have "s \<in> set (case_variants (c # cs)) \<longleftrightarrow>
          (d = c \<or> d = swap_case c) \<and> r \<in> set (case_variants cs)"
      by (simp add: Cons case_variants_Cons del: case_variants.simps)
    also have "\<dots> \<longleftrightarrow> lower_char d = lower_char c \<and> lower r = lower cs"
      by (simp only: lower_char_eq_iff Cons.IH)
    also have "\<dots> \<longleftrightarrow> lower s = lower (c # cs)"
      by (simp add: lower_def Cons)
    finally show ?thesis .
  qed
qed

lemma lower_youtube: "lower ''youtube'' = ''youtube''"
  by (simp add: lower_def lower_char_def)

lemma youtube_variants: "s \<in> set (case_variants ''youtube'') \<longleftrightarrow> lower s = ''youtube''"
  by (simp only: case_variants_iff lower_youtube)

lemma o_media_player_cases:
  "o_media_player s =
     (if lower s = ''youtube'' then Inr Youtube
      else Inl (ValueError ''The application does not work on this media player!''))"
  by (simp add: o_media_player_def create_media_player_def)

text \<open>
  Claim C8. The selection ignores letter case and is validated: every spelling of
  \<open>youtube\<close> in any letter case, \<open>YouTube\<close> among them, selects the
  \<^verbatim>\<open>Youtube\<close> player, whose five methods each press one key; every other name,
  \<open>vlc\<close> among them, raises the factory's exception (a \<^verbatim>\<open>ValueError\<close>, the
  error the specification calls UnsupportedPlayerError) and selects nothing.
\<close>

theorem player_selection:
  "(s \<in> set (case_variants ''youtube'') \<longrightarrow> o_media_player s = Inr Youtube) \<and>
   (s \<notin> set (case_variants ''youtube'') \<longrightarrow>
      o_media_player s =
        Inl (ValueError ''The application does not work on this media player!'')) \<and>
   ''YouTube'' \<in> set (case_variants ''youtube'') \<and>
   o_media_player ''YouTube'' = Inr Youtube \<and>
   o_media_player ''vlc'' =
     Inl (ValueError ''The application does not work on this media player!'') \<and>
   (\<forall>c. \<exists>key. press Youtube c = [key])"
proof -
  have a: "s \<in> set (case_variants ''youtube'') \<longrightarrow> o_media_player s = Inr Youtube"
    unfolding youtube_variants by (simp add: o_media_player_cases)
  have b: "s \<notin> set (case_variants ''youtube'') \<longrightarrow>
      o_media_player s =
        Inl (ValueError ''The application does not work on this media player!'')"
    unfolding youtube_variants by (simp add: o_media_player_cases)
  have y: "o_media_player ''YouTube'' = Inr Youtube"
    by code_simp
  then have "lower ''YouTube'' = ''youtube''"
    unfolding o_media_player_cases by (simp split: if_splits)
  then have m: "''YouTube'' \<in> set (case_variants ''youtube'')"
    unfolding youtube_variants .
  have vlc: "o_media_player ''vlc'' =
     Inl (ValueError ''The application does not work on this media player!'')"
    by code_simp
  have p: "\<forall>c. \<exists>key. press Youtube c = [key]"
  proof
    fix c
    show "\<exists>key. press Youtube c = [key]"
      by (cases c) simp_all
  qed
  from a b m y vlc p show ?thesis
    by (intro conjI)
qed

theorem player_selection_witness:
  "''yOUtuBE'' \<in> set (case_variants ''youtube'') \<and>
   o_media_player ''yOUtuBE'' = Inr Youtube \<and>
   ''vlc'' \<notin> set (case_variants ''youtube'') \<and>
   o_media_player ''vlc'' =
     Inl (ValueError ''The application does not work on this media player!'')"
proof -
  have a: "''yOUtuBE'' \<in> set (case_variants ''youtube'')"
    by code_simp
  have b: "''vlc'' \<notin> set (case_variants ''youtube'')"
    by code_simp
  from player_selection [of "''yOUtuBE''"] a
  have c: "o_media_player ''yOUtuBE'' = Inr Youtube"
    by blast
  from player_selection [of "''vlc''"] b
  have d: "o_media_player ''vlc'' =
     Inl (ValueError ''The application does not work on this media player!'')"
    by blast
  from a b c d show ?thesis
    by (intro conjI)
qed

end
